theory Spec2Isabelle
  imports Complex_Main "HOL-Library.Multiset" "HOL-Library.Sublist"
begin

section \<open>Text \<rightarrow> Emotion Analyzer: the script \<open>app_text_emotion.py\<close>\<close>

text \<open>
  The script is a Streamlit page: on every run it selects a model from the language
  choice, and, depending on the buttons pressed, classifies the text, ranks the scores,
  shows them, appends a row to \<open>predictions_log.csv\<close>, shows the number of saved rows,
  or deletes the log. The embedding follows the script top to bottom. What the script
  gets from its runtime (the clock, the classification pipeline, the decimal form of a
  float) is a field of the record \<open>env\<close>; the log file is the only state.
\<close>

subsection \<open>Strings\<close>

text \<open>
  A Python \<open>str\<close> is a sequence of Unicode code points, so it is a list of naturals
  here (an 8-bit \<open>char\<close> cannot hold the glyphs of \<open>EMOJI_MAP\<close>). \<open>lit\<close> turns an
  ASCII literal into such a string.
\<close>

type_synonym str = "nat list"

definition lit :: "string \<Rightarrow> str" where
  "lit s = map of_char s"

definition is_ascii :: "str \<Rightarrow> bool" where
  "is_ascii s = list_all (\<lambda>c. c < 128) s"

text \<open>
  \<open>str.lower()\<close> and \<open>str.upper()\<close> map every code point by the Unicode character
  database; one code point can become several. The tables below are exact on ASCII and
  hold, beyond ASCII, every code point whose lower-case (upper-case) form contains an
  ASCII character (Unicode 14): U+0130 and U+212A for \<open>lower\<close>; U+00DF, U+0131, U+0149,
  U+017F, U+01F0, U+1E96 to U+1E9A and U+FB00 to U+FB06 for \<open>upper\<close>. Every other code
  point is left as it is: Python maps it to code points outside ASCII as well, so it can
  never take part in a key of \<open>EMOJI_MAP\<close>, whose keys are ASCII.
\<close>

definition lower_cp :: "nat \<Rightarrow> str" where
  "lower_cp c =
     (if 65 \<le> c \<and> c \<le> 90 then [c + 32]
      else if c = 0x130 then [0x69, 0x307]
      else if c = 0x212A then [0x6B]
      else [c])"

definition upper_cp :: "nat \<Rightarrow> str" where
  "upper_cp c =
     (if 97 \<le> c \<and> c \<le> 122 then [c - 32]
      else if c = 0xDF then [0x53, 0x53]
      else if c = 0x131 then [0x49]
      else if c = 0x149 then [0x2BC, 0x4E]
      else if c = 0x17F then [0x53]
      else if c = 0x1F0 then [0x4A, 0x30C]
      else if c = 0x1E96 then [0x48, 0x331]
      else if c = 0x1E97 then [0x54, 0x308]
      else if c = 0x1E98 then [0x57, 0x30A]
      else if c = 0x1E99 then [0x59, 0x30A]
      else if c = 0x1E9A then [0x41, 0x2BE]
      else if c = 0xFB00 then [0x46, 0x46]
      else if c = 0xFB01 then [0x46, 0x49]
      else if c = 0xFB02 then [0x46, 0x4C]
      else if c = 0xFB03 then [0x46, 0x46, 0x49]
      else if c = 0xFB04 then [0x46, 0x46, 0x4C]
      else if c = 0xFB05 then [0x53, 0x54]
      else if c = 0xFB06 then [0x53, 0x54]
      else [c])"

definition py_lower :: "str \<Rightarrow> str" where
  "py_lower s = concat (map lower_cp s)"

definition py_upper :: "str \<Rightarrow> str" where
  "py_upper s = concat (map upper_cp s)"

text \<open>
  \<open>str.isspace()\<close> of one code point, and \<open>str.strip()\<close> with no argument, which
  removes the white space at both ends.
\<close>

definition py_isspace :: "nat \<Rightarrow> bool" where
  "py_isspace c \<longleftrightarrow>
     (9 \<le> c \<and> c \<le> 13) \<or> (28 \<le> c \<and> c \<le> 32) \<or> c = 0x85 \<or> c = 0xA0 \<or> c = 0x1680 \<or>
     (0x2000 \<le> c \<and> c \<le> 0x200A) \<or> c = 0x2028 \<or> c = 0x2029 \<or> c = 0x202F \<or>
     c = 0x205F \<or> c = 0x3000"

definition py_strip :: "str \<Rightarrow> str" where
  "py_strip s = rev (dropWhile py_isspace (rev (dropWhile py_isspace s)))"

definition startswith :: "str \<Rightarrow> str \<Rightarrow> bool" where
  "startswith s p = (take (length p) s = p)"

subsection \<open>Errors\<close>

datatype py_error =
    IndexError
  | FileNotFoundError
  | ParserError
  | EmptyDataError
  | StreamlitAPIException

text \<open>\<open>xs[0]\<close>: Python raises \<open>IndexError\<close> on an empty list.\<close>

definition index0 :: "'a list \<Rightarrow> py_error + 'a" where
  "index0 xs = (case xs of [] \<Rightarrow> Inl IndexError | x # _ \<Rightarrow> Inr x)"

subsection \<open>Models and the emoji map\<close>

definition EN_MODEL :: str where
  "EN_MODEL = lit ''bhadresh-savani/distilbert-base-uncased-emotion''"

definition MULTI_MODEL :: str where
  "MULTI_MODEL = lit ''cardiffnlp/twitter-xlm-roberta-base-emotion''"

text \<open>The dictionary \<open>EMOJI_MAP\<close>, in the order of the source; the glyphs are code points.\<close>

definition EMOJI_MAP :: "(str \<times> str) list" where
  "EMOJI_MAP =
     [(lit ''joy'', [0x1F604]),
      (lit ''happy'', [0x1F604]),
      (lit ''sadness'', [0x1F622]),
      (lit ''sad'', [0x1F622]),
      (lit ''anger'', [0x1F621]),
      (lit ''anger/annoyance'', [0x1F621]),
      (lit ''disgust'', [0x1F922]),
      (lit ''fear'', [0x1F628]),
      (lit ''surprise'', [0x1F632]),
      (lit ''neutral'', [0x1F610]),
      (lit ''love'', [0x2764, 0xFE0F]),
      (lit ''enthusiasm'', [0x1F929])]"

definition DEFAULT_EMOJI :: str where
  "DEFAULT_EMOJI = [0x1F7E6]"

text \<open>\<open>dict.get(key, default)\<close>.\<close>

definition dict_get :: "('k \<times> 'v) list \<Rightarrow> 'k \<Rightarrow> 'v \<Rightarrow> 'v" where
  "dict_get d k dflt = (case map_of d k of None \<Rightarrow> dflt | Some v \<Rightarrow> v)"

definition label_to_emoji :: "str \<Rightarrow> str" where
  "label_to_emoji label = (let l = py_lower label in dict_get EMOJI_MAP l DEFAULT_EMOJI)"

text \<open>\<open>model_name = EN_MODEL if lang.startswith("English") else MULTI_MODEL\<close>\<close>

definition model_name :: "str \<Rightarrow> str" where
  "model_name lang = (if startswith lang (lit ''English'') then EN_MODEL else MULTI_MODEL)"

subsection \<open>Result ranker\<close>

text \<open>
  One entry of the pipeline's answer is a dictionary \<open>{'label': ..., 'score': ...}\<close>.
  A score is a float; the order of floats (NaN apart, which is no score) is the order of
  the reals they denote, so a score is a real here.
\<close>

record pred =
  label :: str
  score :: real

text \<open>
  \<open>sorted(preds, key=lambda x: x["score"], reverse=True)\<close>. Python's sort is stable, and
  with \<open>reverse=True\<close> it reverses the list, sorts it in ascending order of the key and
  reverses the result, which keeps entries of equal key in their order of input.
\<close>

definition preds_sorted :: "pred list \<Rightarrow> pred list" where
  "preds_sorted preds = rev (sort_key score (rev preds))"

definition top3 :: "pred list \<Rightarrow> pred list" where
  "top3 preds = take 3 (preds_sorted preds)"

definition top :: "pred list \<Rightarrow> py_error + pred" where
  "top preds = index0 (top3 preds)"

subsection \<open>What the runtime provides\<close>

text \<open>
  \<open>now\<close> is \<open>datetime.datetime.now().isoformat()\<close> at the time of the call;
  \<open>csv_float\<close> is the text pandas writes for a float cell and \<open>json_float\<close> the text
  \<open>json.dumps\<close> writes for a float (both the shortest decimal that reads back as the
  same float; floats are not modelled, so both are taken as given);
  \<open>pipe m t\<close> is the answer of the pipeline loaded for the model \<open>m\<close> on the text \<open>t\<close>: a
  list with one list of scores for each input.
\<close>

record env =
  now :: str
  csv_float :: "real \<Rightarrow> str"
  json_float :: "real \<Rightarrow> str"
  pipe :: "str \<Rightarrow> str \<Rightarrow> pred list list"

subsection \<open>\<open>json.dumps(all_scores, ensure_ascii=False)\<close>\<close>

text \<open>
  A string is written between double quotes; the quote, the backslash and the control
  characters below U+0020 are escaped, every other code point is written as it is
  (\<open>ensure_ascii=False\<close>). A list of dictionaries is written with the separators
  \<open>", "\<close> and \<open>": "\<close>, the keys in the order of the dictionary.
\<close>

definition hexdigit :: "nat \<Rightarrow> nat" where
  "hexdigit d = (if d < 10 then 48 + d else 87 + d)"

definition BACKSLASH :: nat where "BACKSLASH = 0x5C"

definition json_escape :: "nat \<Rightarrow> str" where
  "json_escape c =
     (if c = 0x22 then [BACKSLASH, 0x22]
      else if c = BACKSLASH then [BACKSLASH, BACKSLASH]
      else if c = 8 then BACKSLASH # lit ''b''
      else if c = 12 then BACKSLASH # lit ''f''
      else if c = 10 then BACKSLASH # lit ''n''
      else if c = 13 then BACKSLASH # lit ''r''
      else if c = 9 then BACKSLASH # lit ''t''
      else if c < 32 then BACKSLASH # lit ''u00'' @ [hexdigit (c div 16), hexdigit (c mod 16)]
      else [c])"

definition json_string :: "str \<Rightarrow> str" where
  "json_string s = [0x22] @ concat (map json_escape s) @ [0x22]"

fun join :: "str \<Rightarrow> str list \<Rightarrow> str" where
  "join sep [] = []"
| "join sep [x] = x"
| "join sep (x # y # ys) = x @ sep @ join sep (y # ys)"

definition json_pred :: "env \<Rightarrow> pred \<Rightarrow> str" where
  "json_pred e p =
     lit ''{'' @ json_string (lit ''label'') @ lit '': '' @ json_string (label p) @ lit '', '' @
     json_string (lit ''score'') @ lit '': '' @ json_float e (score p) @ lit ''}''"

definition json_dumps :: "env \<Rightarrow> pred list \<Rightarrow> str" where
  "json_dumps e ps = lit ''['' @ join (lit '', '') (map (json_pred e) ps) @ lit '']''"

subsection \<open>Writing the log: \<open>DataFrame([row]).to_csv\<close>\<close>

text \<open>
  The row is a dictionary; its keys become the columns of the frame, in their order.
  A cell is a string or a float.
\<close>

datatype cell = S str | F real

definition cell_text :: "env \<Rightarrow> cell \<Rightarrow> str" where
  "cell_text e c = (case c of S s \<Rightarrow> s | F x \<Rightarrow> csv_float e x)"

text \<open>
  pandas writes through Python's \<open>csv.writer\<close> with the comma as delimiter, the double
  quote as quote character, minimal quoting and \<open>os.linesep\<close> (a line feed; the model
  is of a POSIX system) as line terminator: a field is quoted if it contains the
  delimiter, the quote character, a line feed or a carriage return, and a quote
  character inside it is doubled.
\<close>

definition COMMA :: nat where "COMMA = 0x2C"
definition DQUOTE :: nat where "DQUOTE = 0x22"
definition LF :: nat where "LF = 10"
definition CR :: nat where "CR = 13"

definition csv_special :: "nat \<Rightarrow> bool" where
  "csv_special c \<longleftrightarrow> c = COMMA \<or> c = DQUOTE \<or> c = LF \<or> c = CR"

definition csv_double :: "nat \<Rightarrow> str" where
  "csv_double c = (if c = DQUOTE then [DQUOTE, DQUOTE] else [c])"

definition csv_field :: "str \<Rightarrow> str" where
  "csv_field f =
     (if list_ex csv_special f then [DQUOTE] @ concat (map csv_double f) @ [DQUOTE] else f)"

definition csv_line :: "str list \<Rightarrow> str" where
  "csv_line cells = join [COMMA] (map csv_field cells) @ [LF]"

definition to_csv :: "env \<Rightarrow> bool \<Rightarrow> (str \<times> cell) list \<Rightarrow> str" where
  "to_csv e header row =
     (if header then csv_line (map fst row) else []) @ csv_line (map (cell_text e \<circ> snd) row)"

text \<open>
  The file system holds one file of interest, \<open>predictions_log.csv\<close>: \<open>None\<close> when it
  does not exist, its text otherwise (the file is the UTF-8 encoding of that text).
  Mode \<open>"w"\<close> replaces the content, mode \<open>"a"\<close> writes at the end.
\<close>

type_synonym log_file = "str option"

definition path_exists :: "log_file \<Rightarrow> bool" where
  "path_exists fs = (fs \<noteq> None)"

definition write_file :: "log_file \<Rightarrow> str \<Rightarrow> log_file" where
  "write_file fs s = Some s"

definition append_file :: "log_file \<Rightarrow> str \<Rightarrow> log_file" where
  "append_file fs s = Some ((case fs of None \<Rightarrow> [] | Some c \<Rightarrow> c) @ s)"

definition os_remove :: "log_file \<Rightarrow> py_error + log_file" where
  "os_remove fs = (case fs of None \<Rightarrow> Inl FileNotFoundError | Some c \<Rightarrow> Inr None)"

definition log_row :: "env \<Rightarrow> str \<Rightarrow> str \<Rightarrow> str \<Rightarrow> real \<Rightarrow> pred list \<Rightarrow> (str \<times> cell) list" where
  "log_row e text lang top_label top_score all_scores =
     [(lit ''timestamp'', S (now e)),
      (lit ''text'', S text),
      (lit ''language'', S lang),
      (lit ''top_label'', S top_label),
      (lit ''top_score'', F top_score),
      (lit ''all_scores'', S (json_dumps e all_scores))]"

definition save_prediction :: "env \<Rightarrow> str \<Rightarrow> str \<Rightarrow> str \<Rightarrow> real \<Rightarrow> pred list \<Rightarrow> log_file \<Rightarrow> log_file" where
  "save_prediction e text lang top_label top_score all_scores fs =
     (let row = log_row e text lang top_label top_score all_scores
      in if \<not> path_exists fs then write_file fs (to_csv e True row)
         else append_file fs (to_csv e False row))"

subsection \<open>Reading the log: \<open>pd.read_csv\<close>\<close>

text \<open>
  \<open>pd.read_csv\<close> with its default options splits the text with the tokenizer of
  pandas' C parser: a state machine over the characters, with the comma as delimiter,
  the double quote as quote character (a doubled quote inside a quoted field is one
  quote), no escape and no comment character, blank lines skipped, and a line feed, a
  carriage return or both as the end of a line. The states keep the names they have in
  pandas. The tokenizer's result is the current field, the fields of the current line
  and the finished lines.
\<close>

datatype tmode =
    START_RECORD
  | START_FIELD
  | IN_FIELD
  | IN_QUOTED_FIELD
  | QUOTE_IN_QUOTED_FIELD
  | EAT_CRNL
  | EAT_CRNL_NOP

type_synonym tok = "tmode \<times> str \<times> str list \<times> str list list"

definition tok_start_field :: "str \<Rightarrow> str list \<Rightarrow> str list list \<Rightarrow> nat \<Rightarrow> tok" where
  "tok_start_field fld line lines c =
     (if c = LF then (START_RECORD, [], [], lines @ [line @ [fld]])
      else if c = CR then (EAT_CRNL, [], line @ [fld], lines)
      else if c = DQUOTE then (IN_QUOTED_FIELD, fld, line, lines)
      else if c = COMMA then (START_FIELD, [], line @ [fld], lines)
      else (IN_FIELD, fld @ [c], line, lines))"

definition tok_start_record :: "str \<Rightarrow> str list \<Rightarrow> str list list \<Rightarrow> nat \<Rightarrow> tok" where
  "tok_start_record fld line lines c =
     (if c = LF then (START_RECORD, fld, line, lines)
      else if c = CR then (EAT_CRNL_NOP, fld, line, lines)
      else tok_start_field fld line lines c)"

fun tokenize_char :: "tok \<Rightarrow> nat \<Rightarrow> tok" where
  "tokenize_char (START_RECORD, fld, line, lines) c = tok_start_record fld line lines c"
| "tokenize_char (START_FIELD, fld, line, lines) c = tok_start_field fld line lines c"
| "tokenize_char (IN_FIELD, fld, line, lines) c =
     (if c = LF then (START_RECORD, [], [], lines @ [line @ [fld]])
      else if c = CR then (EAT_CRNL, [], line @ [fld], lines)
      else if c = COMMA then (START_FIELD, [], line @ [fld], lines)
      else (IN_FIELD, fld @ [c], line, lines))"
| "tokenize_char (IN_QUOTED_FIELD, fld, line, lines) c =
     (if c = DQUOTE then (QUOTE_IN_QUOTED_FIELD, fld, line, lines)
      else (IN_QUOTED_FIELD, fld @ [c], line, lines))"
| "tokenize_char (QUOTE_IN_QUOTED_FIELD, fld, line, lines) c =
     (if c = DQUOTE then (IN_QUOTED_FIELD, fld @ [c], line, lines)
      else if c = COMMA then (START_FIELD, [], line @ [fld], lines)
      else if c = LF then (START_RECORD, [], [], lines @ [line @ [fld]])
      else if c = CR then (EAT_CRNL, [], line @ [fld], lines)
      else (IN_FIELD, fld @ [c], line, lines))"
| "tokenize_char (EAT_CRNL, fld, line, lines) c =
     (if c = LF then (START_RECORD, fld, [], lines @ [line])
      else if c = COMMA then (START_FIELD, [], [fld], lines @ [line])
      else tok_start_record fld [] (lines @ [line]) c)"
| "tokenize_char (EAT_CRNL_NOP, fld, line, lines) c =
     (if c = LF \<or> c = COMMA then (START_RECORD, fld, line, lines)
      else tok_start_record fld line lines c)"

definition tokenize_all :: "str \<Rightarrow> tok" where
  "tokenize_all s = foldl tokenize_char (START_RECORD, [], [], []) s"

text \<open>
  At the end of the input an open quoted field is an error (``EOF inside string''); an
  unfinished field and an unfinished line are ended.
\<close>

fun handle_eof :: "tok \<Rightarrow> py_error + str list list" where
  "handle_eof (START_RECORD, fld, line, lines) = Inr lines"
| "handle_eof (EAT_CRNL_NOP, fld, line, lines) = Inr lines"
| "handle_eof (IN_QUOTED_FIELD, fld, line, lines) = Inl ParserError"
| "handle_eof (IN_FIELD, fld, line, lines) = Inr (lines @ [line @ [fld]])"
| "handle_eof (START_FIELD, fld, line, lines) = Inr (lines @ [line @ [fld]])"
| "handle_eof (QUOTE_IN_QUOTED_FIELD, fld, line, lines) = Inr (lines @ [line @ [fld]])"
| "handle_eof (EAT_CRNL, fld, line, lines) = Inr (lines @ [line])"

text \<open>
  The first line is the header. A file without any line has no columns
  (\<open>EmptyDataError\<close>). From the second data line on, a line with more fields than
  expected is an error (``Expected n fields, saw m''); the number expected is that of
  the header or of the first data line, whichever is larger. Shorter lines are filled
  up. The rows of the frame are the data lines; \<open>len(df_log)\<close> is their number. What the
  cells become (numbers, missing values) is not modelled: a row is the list of its
  fields as text.
\<close>

definition read_csv :: "str \<Rightarrow> py_error + str list list" where
  "read_csv s =
     (case handle_eof (tokenize_all s) of
        Inl err \<Rightarrow> Inl err
      | Inr [] \<Rightarrow> Inl EmptyDataError
      | Inr [header] \<Rightarrow> Inr []
      | Inr (header # r # rs) \<Rightarrow>
          (if list_ex (\<lambda>x. max (length header) (length r) < length x) rs
           then Inl ParserError else Inr (r # rs)))"

subsection \<open>The page\<close>

text \<open>
  What a run shows is a list of elements, in the order of the calls of \<open>st.warning\<close>,
  \<open>st.success\<close>, \<open>st.info\<close>, \<open>st.markdown\<close>, \<open>st.write\<close>, \<open>st.progress\<close>, \<open>st.table\<close>,
  \<open>st.bar_chart\<close> and \<open>st.download_button\<close> that depend on the input. An element carries
  the values the call formats, not the formatted text. The title, the side bar and the
  separators, which are the same in every run, are left out.
\<close>

datatype ui =
    Warning str
  | Success str
  | Info str
  | Predicted str str real
  | Progress int
  | TopEntry nat str str real
  | Table "pred list"
  | BarChart "pred list"
  | TotalSaved nat
  | Download str
  | CouldNotLoad py_error
  | NoPredictionsSaved

text \<open>
  The state of a run: the log file, what has been shown, and the calls of the pipeline
  made (the model and the text of each). A run ends normally or with an exception, which
  Streamlit reports; what was written before stays written.
\<close>

record world =
  log_csv :: log_file
  shown :: "ui list"
  calls :: "(str \<times> str) list"

datatype outcome = Done | Raised py_error

definition render :: "ui list \<Rightarrow> world \<Rightarrow> world" where
  "render us w = w\<lparr>shown := shown w @ us\<rparr>"

text \<open>\<open>int(x)\<close> of a float truncates towards zero.\<close>

definition py_int :: "real \<Rightarrow> int" where
  "py_int x = (if 0 \<le> x then \<lfloor>x\<rfloor> else \<lceil>x\<rceil>)"

text \<open>
  \<open>st.progress\<close> takes an integer from 0 to 100 and raises \<open>StreamlitAPIException\<close> for
  any other.
\<close>

definition st_progress :: "int \<Rightarrow> world \<Rightarrow> py_error + world" where
  "st_progress v w = (if 0 \<le> v \<and> v \<le> 100 then Inr (render [Progress v] w) else Inl StreamlitAPIException)"

definition top_entries :: "pred list \<Rightarrow> ui list" where
  "top_entries ps = map (\<lambda>(i, d). TopEntry i (label d) (label_to_emoji (label d)) (score d)) (zip [1 ..< Suc (length ps)] ps)"

text \<open>The body of \<open>if st.button("Predict emotion")\<close>.\<close>

definition predict_button :: "env \<Rightarrow> str \<Rightarrow> str \<Rightarrow> world \<Rightarrow> outcome \<times> world" where
  "predict_button e lang text w =
     (if py_strip text = [] then (Done, render [Warning (lit ''Please enter a sentence to analyze.'')] w)
      else
        let preds_all = pipe e (model_name lang) text;
            w1 = w\<lparr>calls := calls w @ [(model_name lang, text)]\<rparr>
        in case index0 preds_all of
             Inl err \<Rightarrow> (Raised err, w1)
           | Inr preds \<Rightarrow>
               (case top preds of
                  Inl err \<Rightarrow> (Raised err, w1)
                | Inr t \<Rightarrow>
                    let emoji = label_to_emoji (label t);
                        w2 = render [Predicted emoji (label t) (score t)] w1
                    in case st_progress (py_int (score t * 100)) w2 of
                         Inl err \<Rightarrow> (Raised err, w2)
                       | Inr w3 \<Rightarrow>
                           let w4 = render (top_entries (top3 preds) @
                                      [Table (preds_sorted preds), BarChart (preds_sorted preds)]) w3;
                               w5 = w4\<lparr>log_csv := save_prediction e text lang (label t) (score t)
                                                       (preds_sorted preds) (log_csv w4)\<rparr>
                           in (Done, render [Success (lit ''Saved to log '' @ [0x2705])] w5)))"

text \<open>The column ``Actions'': the number of saved predictions and the download.\<close>

definition log_actions :: "world \<Rightarrow> world" where
  "log_actions w =
     (case log_csv w of
        Some content \<Rightarrow>
          (case read_csv content of
             Inr df_log \<Rightarrow> render [TotalSaved (length df_log), Download content] w
           | Inl err \<Rightarrow> render [CouldNotLoad err] w)
      | None \<Rightarrow> render [NoPredictionsSaved] w)"

text \<open>The body of \<open>if st.button("Clear saved CSV")\<close>.\<close>

definition clear_button :: "world \<Rightarrow> outcome \<times> world" where
  "clear_button w =
     (if path_exists (log_csv w) then
        (case os_remove (log_csv w) of
           Inl err \<Rightarrow> (Raised err, w)
         | Inr fs \<Rightarrow> (Done, render [Success (lit ''Log cleared.'')] (w\<lparr>log_csv := fs\<rparr>)))
      else (Done, render [Info (lit ''No log file found.'')] w))"

text \<open>
  One run of the script, with the language chosen, the text entered and the button
  pressed, if any.
\<close>

definition run :: "env \<Rightarrow> str \<Rightarrow> str \<Rightarrow> bool \<Rightarrow> bool \<Rightarrow> world \<Rightarrow> outcome \<times> world" where
  "run e lang text predict clear w =
     (case (if predict then predict_button e lang text w else (Done, w)) of
        (Raised err, w1) \<Rightarrow> (Raised err, w1)
      | (Done, w1) \<Rightarrow>
          (let w2 = log_actions w1
           in if clear then clear_button w2 else (Done, w2)))"

text \<open>
  The log files the script can meet when nothing else writes the file: none at the
  start, and what a run leaves.
\<close>

inductive reachable :: "log_file \<Rightarrow> bool" where
  start: "reachable None"
| step: "reachable (log_csv w) \<Longrightarrow> reachable (log_csv (snd (run e lang text predict clear w)))"

text \<open>The rows of the log; a log that does not exist has none.\<close>

definition log_rows :: "log_file \<Rightarrow> py_error + str list list" where
  "log_rows fs = (case fs of None \<Rightarrow> Inr [] | Some content \<Rightarrow> read_csv content)"

text \<open>
  A log the script has written: the tokenizer ends at the start of a record, with the
  header line and the data lines, all of six fields.
\<close>

definition log_ok :: "log_file \<Rightarrow> bool" where
  "log_ok fs =
     (case fs of
        None \<Rightarrow> True
      | Some content \<Rightarrow>
          (case tokenize_all content of
             (m, fld, line, lines) \<Rightarrow>
               m = START_RECORD \<and> fld = [] \<and> line = [] \<and> lines \<noteq> [] \<and>
               list_all (\<lambda>r. length r = 6) lines))"

subsection \<open>Inputs used as examples\<close>

definition tied_scores :: "pred list" where
  "tied_scores =
     [\<lparr>label = lit ''fear'', score = 0.2\<rparr>, \<lparr>label = lit ''joy'', score = 0.5\<rparr>,
      \<lparr>label = lit ''love'', score = 0.2\<rparr>, \<lparr>label = lit ''anger'', score = 0.1\<rparr>]"

text \<open>
  The scenario of the specification: the sentence entered, the scores the English model
  returns for it, and a runtime that returns them. \<open>float_text\<close> gives the decimal text of
  the floats that occur in the scenario (what \<open>repr\<close> prints for them).
\<close>

definition promotion_text :: str where
  "promotion_text = lit ''I got a promotion today!''"

definition promotion_scores :: "pred list" where
  "promotion_scores =
     [\<lparr>label = lit ''joy'', score = 0.91\<rparr>, \<lparr>label = lit ''surprise'', score = 0.05\<rparr>,
      \<lparr>label = lit ''neutral'', score = 0.02\<rparr>, \<lparr>label = lit ''sadness'', score = 0.01\<rparr>,
      \<lparr>label = lit ''anger'', score = 0.01\<rparr>]"

definition float_text :: "real \<Rightarrow> str" where
  "float_text x =
     (if x = 0.91 then lit ''0.91'' else if x = 0.05 then lit ''0.05''
      else if x = 0.02 then lit ''0.02'' else if x = 0.01 then lit ''0.01'' else lit ''0.0'')"

definition promotion_env :: env where
  "promotion_env =
     \<lparr>now = lit ''2024-05-01T10:00:00.000000'', csv_float = float_text, json_float = float_text,
      pipe = (\<lambda>m t. [promotion_scores])\<rparr>"

text \<open>A runtime whose pipeline returns no class at all for the input.\<close>

definition no_class_env :: env where
  "no_class_env = promotion_env\<lparr>pipe := (\<lambda>m t. [[]])\<rparr>"

text \<open>The state before the first run: no log file, nothing shown, no call made.\<close>

definition fresh :: world where
  "fresh = \<lparr>log_csv = None, shown = [], calls = []\<rparr>"

text \<open>A sentence with a comma, double quotes and a line break.\<close>

definition quoted_text :: str where
  "quoted_text = lit ''Well, '' @ [DQUOTE] @ lit ''great'' @ [DQUOTE, LF] @ lit ''news!''"

section \<open>Properties\<close>

subsection \<open>Label to emoji\<close>

lemma lower_cp_fixed: "c' \<in> set (lower_cp c) \<Longrightarrow> lower_cp c' = [c']"
  by (auto simp: lower_cp_def split: if_splits)

lemma py_lower_fixed: "(\<And>c. c \<in> set s \<Longrightarrow> lower_cp c = [c]) \<Longrightarrow> py_lower s = s"
  unfolding py_lower_def by (induction s) auto

lemma py_lower_append: "py_lower (a @ b) = py_lower a @ py_lower b"
  by (simp add: py_lower_def)

lemma py_lower_idem: "py_lower (py_lower s) = py_lower s"
proof (induction s)
  case Nil
  show ?case by (simp add: py_lower_def)
next
  case (Cons c s)
  have "py_lower (lower_cp c) = lower_cp c"
    by (rule py_lower_fixed) (rule lower_cp_fixed)
  moreover have "py_lower (c # s) = lower_cp c @ py_lower s"
    by (simp add: py_lower_def)
  ultimately show ?case using Cons by (simp add: py_lower_append)
qed

lemma lower_upper_cp: "c < 128 \<Longrightarrow> py_lower (upper_cp c) = lower_cp c"
  by (auto simp: py_lower_def lower_cp_def upper_cp_def)

lemma py_lower_upper_ascii: "is_ascii s \<Longrightarrow> py_lower (py_upper s) = py_lower s"
proof (induction s)
  case Nil
  show ?case by (simp add: py_upper_def)
next
  case (Cons c s)
  then have c: "c < 128" and s: "is_ascii s" by (simp_all add: is_ascii_def)
  have "py_upper (c # s) = upper_cp c @ py_upper s" by (simp add: py_upper_def)
  then have "py_lower (py_upper (c # s)) = py_lower (upper_cp c) @ py_lower (py_upper s)"
    by (simp add: py_lower_append)
  also have "\<dots> = lower_cp c @ py_lower s" using lower_upper_cp [OF c] Cons.IH [OF s] by simp
  also have "\<dots> = py_lower (c # s)" by (simp add: py_lower_def)
  finally show ?case .
qed

text \<open>
  C6, as the code has it. The label U+017F \<open>a\<close> \<open>d\<close> (a long s, then ``ad'') is not a key
  and lower-casing leaves it alone, so it gets the default glyph; its upper-case form is
  \<open>SAD\<close>, which gets the glyph of \<open>sad\<close>. So the emoji of a label and of its upper-case
  form differ for some labels outside ASCII.
\<close>

theorem label_to_emoji_upper_counterexample:
  "label_to_emoji (py_upper (0x17F # lit ''ad'')) \<noteq> label_to_emoji (0x17F # lit ''ad'')"
  by (simp add: label_to_emoji_def py_lower_def py_upper_def upper_cp_def lower_cp_def
      EMOJI_MAP_def DEFAULT_EMOJI_def dict_get_def lit_def)

text \<open>
  C6, amended: for every label of ASCII characters the emoji of the label, of its
  upper-case form and of its lower-case form are the same; for every label the emoji of
  the label and of its lower-case form are the same; and a label whose lower-case form
  is not a key of \<open>EMOJI_MAP\<close> gets the default glyph. \<open>label_to_emoji\<close> is a total
  function.
\<close>

theorem label_to_emoji_case_insensitive:
  "(is_ascii L \<longrightarrow> label_to_emoji (py_upper L) = label_to_emoji L) \<and>
   label_to_emoji (py_lower L) = label_to_emoji L \<and>
   (map_of EMOJI_MAP (py_lower L) = None \<longrightarrow> label_to_emoji L = DEFAULT_EMOJI)"
  by (simp add: label_to_emoji_def py_lower_idem py_lower_upper_ascii dict_get_def)

theorem label_to_emoji_case_insensitive_witness:
  "is_ascii (lit ''Joy'') \<and>
   label_to_emoji (py_upper (lit ''Joy'')) = label_to_emoji (lit ''Joy'') \<and>
   label_to_emoji (py_lower (lit ''Joy'')) = label_to_emoji (lit ''Joy'') \<and>
   label_to_emoji (lit ''Joy'') = [0x1F604] \<and>
   map_of EMOJI_MAP (py_lower (lit ''Zest'')) = None \<and>
   label_to_emoji (lit ''Zest'') = DEFAULT_EMOJI"
proof -
  have a: "is_ascii (lit ''Joy'')" by (simp add: is_ascii_def lit_def)
  have n: "map_of EMOJI_MAP (py_lower (lit ''Zest'')) = None"
    by (simp add: EMOJI_MAP_def py_lower_def lower_cp_def lit_def)
  have j: "label_to_emoji (lit ''Joy'') = [0x1F604]"
    by (simp add: label_to_emoji_def py_lower_def lower_cp_def EMOJI_MAP_def dict_get_def lit_def)
  show ?thesis
    using a n j label_to_emoji_case_insensitive [of "lit ''Joy''"]
      label_to_emoji_case_insensitive [of "lit ''Zest''"] by simp
qed

subsection \<open>Ranking\<close>

lemma preds_sorted_mset: "mset (preds_sorted ps) = mset ps"
  by (simp add: preds_sorted_def)

lemma preds_sorted_desc: "sorted_wrt (\<lambda>a b. score b \<le> score a) (preds_sorted ps)"
proof -
  have "sorted (map score (sort_key score (rev ps)))" by simp
  then have "sorted_wrt (\<lambda>a b. score a \<le> score b) (sort_key score (rev ps))"
    by (simp add: sorted_wrt_map)
  then show ?thesis
    by (simp add: preds_sorted_def sorted_wrt_rev)
qed

lemma preds_sorted_stable:
  "filter (\<lambda>p. score p = k) (preds_sorted ps) = filter (\<lambda>p. score p = k) ps"
proof -
  have "filter (\<lambda>p. score p = k) (sort_key score (rev ps)) = filter (\<lambda>p. score p = k) (rev ps)"
    by (rule sort_key_stable)
  then show ?thesis
    by (simp add: preds_sorted_def rev_filter [symmetric])
qed

lemma index0_take: "0 < n \<Longrightarrow> index0 (take n xs) = index0 xs"
  by (cases xs; cases n) (simp_all add: index0_def)

lemma preds_sorted_Nil_iff: "preds_sorted ps = [] \<longleftrightarrow> ps = []"
proof -
  have "length (preds_sorted ps) = length ps" by (simp add: preds_sorted_def)
  then show ?thesis by (metis length_0_conv)
qed

text \<open>
  C3: the ranked list is a permutation of the scores given, it is in descending order
  of score, the entries of any one score \<open>k\<close> stand in it in their order of input (the
  sort is stable), \<open>top3\<close> is its first three entries and \<open>top\<close> its first entry.
\<close>

theorem ranker_stable_descending:
  "mset (preds_sorted ps) = mset ps \<and>
   sorted_wrt (\<lambda>a b. score b \<le> score a) (preds_sorted ps) \<and>
   filter (\<lambda>p. score p = k) (preds_sorted ps) = filter (\<lambda>p. score p = k) ps \<and>
   top3 ps = take 3 (preds_sorted ps) \<and>
   top ps = (case preds_sorted ps of [] \<Rightarrow> Inl IndexError | p # _ \<Rightarrow> Inr p)"
  using preds_sorted_mset [of ps] preds_sorted_desc [of ps] preds_sorted_stable [of k ps]
  by (simp add: top3_def top_def index0_take) (simp add: index0_def)

theorem ranker_stable_descending_witness:
  "preds_sorted tied_scores =
     [\<lparr>label = lit ''joy'', score = 0.5\<rparr>, \<lparr>label = lit ''fear'', score = 0.2\<rparr>,
      \<lparr>label = lit ''love'', score = 0.2\<rparr>, \<lparr>label = lit ''anger'', score = 0.1\<rparr>] \<and>
   filter (\<lambda>p. score p = 0.2) (preds_sorted tied_scores) =
     [\<lparr>label = lit ''fear'', score = 0.2\<rparr>, \<lparr>label = lit ''love'', score = 0.2\<rparr>] \<and>
   top3 tied_scores =
     [\<lparr>label = lit ''joy'', score = 0.5\<rparr>, \<lparr>label = lit ''fear'', score = 0.2\<rparr>,
      \<lparr>label = lit ''love'', score = 0.2\<rparr>] \<and>
   top tied_scores = Inr \<lparr>label = lit ''joy'', score = 0.5\<rparr>"
proof -
  have s: "preds_sorted tied_scores =
     [\<lparr>label = lit ''joy'', score = 0.5\<rparr>, \<lparr>label = lit ''fear'', score = 0.2\<rparr>,
      \<lparr>label = lit ''love'', score = 0.2\<rparr>, \<lparr>label = lit ''anger'', score = 0.1\<rparr>]"
    by (simp add: preds_sorted_def tied_scores_def)
  show ?thesis
    using ranker_stable_descending [of tied_scores "0.2"] by (simp add: s)
qed

subsection \<open>What a run leaves untouched\<close>

lemma log_csv_render [simp]: "log_csv (render us w) = log_csv w"
  by (simp add: render_def)

lemma calls_render [simp]: "calls (render us w) = calls w"
  by (simp add: render_def)

lemma shown_render [simp]: "shown (render us w) = shown w @ us"
  by (simp add: render_def)

lemma log_csv_log_actions [simp]: "log_csv (log_actions w) = log_csv w"
  by (simp add: log_actions_def split: option.splits sum.splits)

lemma calls_log_actions [simp]: "calls (log_actions w) = calls w"
  by (simp add: log_actions_def split: option.splits sum.splits)

lemma shown_log_actions: "\<exists>us. shown (log_actions w) = shown w @ us"
  by (simp add: log_actions_def split: option.splits sum.splits)

lemma py_strip_Nil_iff: "py_strip s = [] \<longleftrightarrow> list_all py_isspace s"
proof
  assume a: "py_strip s = []"
  then have all: "\<forall>x \<in> set (dropWhile py_isspace s). py_isspace x"
    by (simp add: py_strip_def dropWhile_eq_Nil_conv)
  have "dropWhile py_isspace s = []"
  proof (rule ccontr)
    assume ne: "dropWhile py_isspace s \<noteq> []"
    then have "\<not> py_isspace (hd (dropWhile py_isspace s))" by (rule hd_dropWhile)
    moreover have "hd (dropWhile py_isspace s) \<in> set (dropWhile py_isspace s)" using ne by simp
    ultimately show False using all by blast
  qed
  then show "list_all py_isspace s" by (simp add: dropWhile_eq_Nil_conv list_all_iff)
next
  assume "list_all py_isspace s"
  then have d: "dropWhile py_isspace s = []" by (simp add: dropWhile_eq_Nil_conv list_all_iff)
  show "py_strip s = []" by (simp only: py_strip_def d rev.simps dropWhile.simps)
qed

lemma promotion_text_strip: "py_strip promotion_text \<noteq> []"
  by (simp add: py_strip_def promotion_text_def lit_def py_isspace_def)

subsection \<open>Model selection\<close>

text \<open>
  Claim C7. The model is chosen from the language string alone: a string that starts with
  \<open>English\<close> gives the English model, every other string, \<open>Hindi / Multilingual\<close> among them,
  gives the multilingual model, and nothing is raised. The text entered plays no part:
  whatever it is, a prediction calls the pipeline of \<open>model_name lang\<close> with it.
\<close>

theorem model_selection:
  "model_name (lit ''English (fast)'') = EN_MODEL \<and>
   model_name (lit ''Hindi / Multilingual'') = MULTI_MODEL \<and>
   (startswith lang (lit ''English'') \<longrightarrow> model_name lang = EN_MODEL) \<and>
   (\<not> startswith lang (lit ''English'') \<longrightarrow> model_name lang = MULTI_MODEL) \<and>
   (py_strip text \<noteq> [] \<longrightarrow>
      calls (snd (predict_button e lang text w)) = calls w @ [(model_name lang, text)])"
  apply (intro conjI)
      apply (simp add: model_name_def startswith_def lit_def)
     apply (simp add: model_name_def startswith_def lit_def)
    apply (simp add: model_name_def)
   apply (simp add: model_name_def)
  apply (simp add: predict_button_def Let_def render_def st_progress_def split: sum.splits)
  done

theorem model_selection_witness:
  "\<not> startswith (lit ''Hindi / Multilingual'') (lit ''English'') \<and>
   py_strip promotion_text \<noteq> [] \<and>
   model_name (lit ''English (fast)'') = EN_MODEL \<and>
   model_name (lit ''Hindi / Multilingual'') = MULTI_MODEL \<and>
   calls (snd (predict_button promotion_env (lit ''Hindi / Multilingual'') promotion_text fresh)) =
     [(MULTI_MODEL, promotion_text)]"
proof -
  have a: "\<not> startswith (lit ''Hindi / Multilingual'') (lit ''English'')"
    by (simp add: startswith_def lit_def)
  have c: "calls fresh = []" by (simp add: fresh_def)
  show ?thesis
    using model_selection [of "lit ''Hindi / Multilingual''" promotion_text promotion_env fresh]
    by (simp add: a c promotion_text_strip)
qed

subsection \<open>The top prediction\<close>

lemma top_Nil: "top [] = Inl IndexError"
  by (simp add: top_def top3_def preds_sorted_def index0_def)

lemma top_nonempty: "preds \<noteq> [] \<Longrightarrow> \<exists>t. top preds = Inr t"
proof -
  assume "preds \<noteq> []"
  then have "preds_sorted preds \<noteq> []" by (simp add: preds_sorted_Nil_iff)
  then obtain p ps where "preds_sorted preds = p # ps" by (cases "preds_sorted preds") auto
  then show ?thesis by (simp add: top_def top3_def index0_def)
qed

text \<open>
  Claim C9. When the pipeline returns an empty list of classes for the input, \<open>top3[0]\<close>
  raises \<open>IndexError\<close> and the run stops there, after the call of the pipeline and before
  anything is shown or saved. When it returns at least one class, the top prediction
  exists and the run does not raise \<open>IndexError\<close>.
\<close>

theorem top_index_error:
  assumes "py_strip text \<noteq> []" and "pipe e (model_name lang) text = preds # rest"
  shows "(preds = [] \<longrightarrow>
            predict_button e lang text w =
              (Raised IndexError, w\<lparr>calls := calls w @ [(model_name lang, text)]\<rparr>)) \<and>
         (preds \<noteq> [] \<longrightarrow>
            top preds \<noteq> Inl IndexError \<and> fst (predict_button e lang text w) \<noteq> Raised IndexError)"
proof (intro conjI impI)
  assume "preds = []"
  then show "predict_button e lang text w =
              (Raised IndexError, w\<lparr>calls := calls w @ [(model_name lang, text)]\<rparr>)"
    using assms by (simp add: predict_button_def Let_def index0_def top_Nil)
next
  assume ne: "preds \<noteq> []"
  then obtain t where t: "top preds = Inr t" using top_nonempty by blast
  then show "top preds \<noteq> Inl IndexError" by simp
  show "fst (predict_button e lang text w) \<noteq> Raised IndexError"
    using assms t
    by (simp add: predict_button_def Let_def index0_def st_progress_def split: sum.splits)
qed

theorem top_index_error_witness:
  "py_strip promotion_text \<noteq> [] \<and>
   pipe no_class_env (model_name (lit ''English (fast)'')) promotion_text = [[]] \<and>
   predict_button no_class_env (lit ''English (fast)'') promotion_text fresh =
     (Raised IndexError, fresh\<lparr>calls := [(EN_MODEL, promotion_text)]\<rparr>) \<and>
   pipe promotion_env (model_name (lit ''English (fast)'')) promotion_text = [promotion_scores] \<and>
   promotion_scores \<noteq> [] \<and>
   top promotion_scores \<noteq> Inl IndexError \<and>
   fst (predict_button promotion_env (lit ''English (fast)'') promotion_text fresh) \<noteq> Raised IndexError"
proof -
  have p1: "pipe no_class_env (model_name (lit ''English (fast)'')) promotion_text = [] # []"
    by (simp add: no_class_env_def promotion_env_def)
  have p2: "pipe promotion_env (model_name (lit ''English (fast)'')) promotion_text = promotion_scores # []"
    by (simp add: promotion_env_def)
  have n: "promotion_scores \<noteq> []" by (simp add: promotion_scores_def)
  have m: "model_name (lit ''English (fast)'') = EN_MODEL"
    by (simp add: model_name_def startswith_def lit_def)
  have c: "calls fresh = []" by (simp add: fresh_def)
  show ?thesis
    using top_index_error [OF promotion_text_strip p1, of fresh]
          top_index_error [OF promotion_text_strip p2, of fresh]
    by (simp add: promotion_text_strip n m c no_class_env_def promotion_env_def)
qed

subsection \<open>Blank input\<close>

text \<open>
  Claim C4. For a text that is empty or made of white space only, the predict action
  shows the warning and ends normally; the pipeline is not called, the log file is left
  as it was, and so are its rows.
\<close>

theorem blank_input_warning:
  assumes "list_all py_isspace text"
  shows "predict_button e lang text w =
           (Done, render [Warning (lit ''Please enter a sentence to analyze.'')] w) \<and>
         fst (run e lang text True False w) = Done \<and>
         calls (snd (run e lang text True False w)) = calls w \<and>
         log_csv (snd (run e lang text True False w)) = log_csv w \<and>
         log_rows (log_csv (snd (run e lang text True False w))) = log_rows (log_csv w) \<and>
         Warning (lit ''Please enter a sentence to analyze.'') \<in> set (shown (snd (run e lang text True False w)))"
proof -
  have s: "py_strip text = []" using assms by (simp add: py_strip_Nil_iff)
  have p: "predict_button e lang text w =
           (Done, render [Warning (lit ''Please enter a sentence to analyze.'')] w)"
    by (simp add: predict_button_def s)
  have r: "run e lang text True False w =
     (Done, log_actions (render [Warning (lit ''Please enter a sentence to analyze.'')] w))"
    by (simp add: run_def p)
  obtain us where "shown (log_actions (render [Warning (lit ''Please enter a sentence to analyze.'')] w))
      = shown (render [Warning (lit ''Please enter a sentence to analyze.'')] w) @ us"
    using shown_log_actions by blast
  then show ?thesis using p r by simp
qed

theorem blank_input_warning_witness:
  "list_all py_isspace [0x20, 9, 10] \<and>
   predict_button promotion_env (lit ''English (fast)'') [0x20, 9, 10] fresh =
     (Done, render [Warning (lit ''Please enter a sentence to analyze.'')] fresh) \<and>
   fst (run promotion_env (lit ''English (fast)'') [0x20, 9, 10] True False fresh) = Done \<and>
   calls (snd (run promotion_env (lit ''English (fast)'') [0x20, 9, 10] True False fresh)) = [] \<and>
   log_csv (snd (run promotion_env (lit ''English (fast)'') [0x20, 9, 10] True False fresh)) = None \<and>
   log_rows (log_csv (snd (run promotion_env (lit ''English (fast)'') [0x20, 9, 10] True False fresh))) = Inr []"
proof -
  have a: "list_all py_isspace [0x20, 9, 10]" by (simp add: py_isspace_def)
  have c: "calls fresh = []" "log_csv fresh = None" by (simp_all add: fresh_def)
  show ?thesis
    using blank_input_warning [OF a, of promotion_env "lit ''English (fast)''" fresh]
    by (simp add: c log_rows_def py_isspace_def)
qed

subsection \<open>Clearing the log\<close>

text \<open>
  Claim C5. The clear action always ends normally and leaves no log file: an existing
  file is removed and success is reported, an absent one is reported as information.
  A second clear right after the first ends normally too, with the information message.
\<close>

theorem clear_idempotent:
  "fst (clear_button w) = Done \<and>
   log_csv (snd (clear_button w)) = None \<and>
   (log_csv w \<noteq> None \<longrightarrow>
      snd (clear_button w) = render [Success (lit ''Log cleared.'')] (w\<lparr>log_csv := None\<rparr>)) \<and>
   (log_csv w = None \<longrightarrow>
      snd (clear_button w) = render [Info (lit ''No log file found.'')] w) \<and>
   clear_button (snd (clear_button w)) =
      (Done, render [Info (lit ''No log file found.'')] (snd (clear_button w)))"
  by (cases "log_csv w") (simp_all add: clear_button_def path_exists_def os_remove_def)

theorem clear_idempotent_witness:
  "clear_button (fresh\<lparr>log_csv := Some (lit ''x'')\<rparr>) =
     (Done, render [Success (lit ''Log cleared.'')] (fresh\<lparr>log_csv := None\<rparr>)) \<and>
   clear_button (snd (clear_button (fresh\<lparr>log_csv := Some (lit ''x'')\<rparr>))) =
     (Done, render [Info (lit ''No log file found.'')]
        (render [Success (lit ''Log cleared.'')] (fresh\<lparr>log_csv := None\<rparr>)))"
proof -
  let ?w = "fresh\<lparr>log_csv := Some (lit ''x'')\<rparr>"
  note t = clear_idempotent [of ?w]
  have s: "snd (clear_button ?w) = render [Success (lit ''Log cleared.'')] (fresh\<lparr>log_csv := None\<rparr>)"
    using t by simp
  have f: "fst (clear_button ?w) = Done" using t by simp
  have again: "clear_button (snd (clear_button ?w)) =
      (Done, render [Info (lit ''No log file found.'')] (snd (clear_button ?w)))"
    using t by blast
  have first: "clear_button ?w = (Done, render [Success (lit ''Log cleared.'')] (fresh\<lparr>log_csv := None\<rparr>))"
    using s f by (simp add: prod_eq_iff)
  show ?thesis using again by (simp add: first)
qed

subsection \<open>Header and data line\<close>

lemma header_line:
  "csv_line (map fst (log_row e text lang lab sc al)) =
     lit ''timestamp,text,language,top_label,top_score,all_scores'' @ [LF]"
  by (simp add: csv_line_def log_row_def csv_field_def csv_special_def lit_def COMMA_def
      DQUOTE_def LF_def CR_def)

lemma data_cells:
  "map (cell_text e \<circ> snd) (log_row e text lang lab sc al) =
     [now e, text, lang, lab, csv_float e sc, json_dumps e al]"
  by (simp add: log_row_def cell_text_def)

lemma save_prediction_None:
  "save_prediction e text lang lab sc al None =
     Some (lit ''timestamp,text,language,top_label,top_score,all_scores'' @ [LF] @
           csv_line [now e, text, lang, lab, csv_float e sc, json_dumps e al])"
  by (simp add: save_prediction_def path_exists_def write_file_def to_csv_def header_line data_cells)

lemma save_prediction_Some:
  "save_prediction e text lang lab sc al (Some c) =
     Some (c @ csv_line [now e, text, lang, lab, csv_float e sc, json_dumps e al])"
  by (simp add: save_prediction_def path_exists_def append_file_def to_csv_def data_cells)

text \<open>
  Claim C2. When the log file does not exist, \<open>save_prediction\<close> creates it with the header
  line \<open>timestamp,text,language,top_label,top_score,all_scores\<close> followed by the one data
  line; when it exists, the one data line is written at its end and no header.
\<close>

theorem save_prediction_header_once:
  "save_prediction e text lang lab sc al None =
     Some (lit ''timestamp,text,language,top_label,top_score,all_scores'' @ [LF] @
           csv_line [now e, text, lang, lab, csv_float e sc, json_dumps e al]) \<and>
   save_prediction e text lang lab sc al (Some c) =
     Some (c @ csv_line [now e, text, lang, lab, csv_float e sc, json_dumps e al])"
  by (simp add: save_prediction_None save_prediction_Some)

theorem save_prediction_header_once_witness:
  "save_prediction promotion_env (lit ''a,b'') (lit ''English (fast)'') (lit ''joy'') 0.91 [] None =
     Some (lit ''timestamp,text,language,top_label,top_score,all_scores'' @ [LF] @
           lit ''2024-05-01T10:00:00.000000,'' @ [DQUOTE] @ lit ''a,b'' @ [DQUOTE] @
           lit '',English (fast),joy,0.91,[]'' @ [LF]) \<and>
   save_prediction promotion_env (lit ''a,b'') (lit ''English (fast)'') (lit ''joy'') 0.91 []
       (Some (lit ''x'')) =
     Some (lit ''x'' @ lit ''2024-05-01T10:00:00.000000,'' @ [DQUOTE] @ lit ''a,b'' @ [DQUOTE] @
           lit '',English (fast),joy,0.91,[]'' @ [LF])"
proof -
  have l: "csv_line [now promotion_env, lit ''a,b'', lit ''English (fast)'', lit ''joy'',
                     csv_float promotion_env 0.91, json_dumps promotion_env []] =
           lit ''2024-05-01T10:00:00.000000,'' @ [DQUOTE] @ lit ''a,b'' @ [DQUOTE] @
           lit '',English (fast),joy,0.91,[]'' @ [LF]"
    by (simp add: csv_line_def csv_field_def csv_special_def csv_double_def promotion_env_def
        float_text_def json_dumps_def lit_def COMMA_def DQUOTE_def LF_def CR_def)
  show ?thesis
    using save_prediction_header_once [of promotion_env "lit ''a,b''" "lit ''English (fast)''"
        "lit ''joy''" "0.91" "[]" "lit ''x''"] l
    by simp
qed

subsection \<open>Reading back what was written\<close>

text \<open>
  The tokenizer reads a line the writer wrote, of two fields or more, as one line with
  the fields as they were before quoting, and is at the start of a record again.
\<close>

lemma tok_unquoted:
  "\<not> list_ex csv_special f \<Longrightarrow>
   foldl tokenize_char (IN_FIELD, fld, line, lines) f = (IN_FIELD, fld @ f, line, lines)"
  by (induction f arbitrary: fld) (simp_all add: csv_special_def)

lemma tok_quoted:
  "foldl tokenize_char (IN_QUOTED_FIELD, fld, line, lines) (concat (map csv_double f)) =
     (IN_QUOTED_FIELD, fld @ f, line, lines)"
  by (induction f arbitrary: fld) (simp_all add: csv_double_def)

lemma tok_open_quote:
  "m = START_FIELD \<or> m = START_RECORD \<Longrightarrow>
   tokenize_char (m, [], line, lines) DQUOTE = (IN_QUOTED_FIELD, [], line, lines)"
  by (auto simp: tok_start_record_def tok_start_field_def DQUOTE_def LF_def CR_def)

lemma tok_first_char:
  "m = START_FIELD \<or> m = START_RECORD \<Longrightarrow> \<not> csv_special c \<Longrightarrow>
   tokenize_char (m, [], line, lines) c = (IN_FIELD, [c], line, lines)"
  by (auto simp: tok_start_record_def tok_start_field_def csv_special_def)

lemma tok_comma_first:
  "m = START_FIELD \<or> m = START_RECORD \<Longrightarrow>
   tokenize_char (m, [], line, lines) COMMA = (START_FIELD, [], line @ [[]], lines)"
  by (auto simp: tok_start_record_def tok_start_field_def COMMA_def DQUOTE_def LF_def CR_def)

lemma tok_field_body:
  assumes "m = START_FIELD \<or> m = START_RECORD" and "list_ex csv_special f \<or> f \<noteq> []"
  shows "\<exists>m'. (m' = IN_FIELD \<or> m' = QUOTE_IN_QUOTED_FIELD) \<and>
           foldl tokenize_char (m, [], line, lines) (csv_field f) = (m', f, line, lines)"
proof (cases "list_ex csv_special f")
  case True
  then have "foldl tokenize_char (m, [], line, lines) (csv_field f) =
      (QUOTE_IN_QUOTED_FIELD, f, line, lines)"
    using assms(1) by (simp add: csv_field_def tok_open_quote tok_quoted)
  then show ?thesis by simp
next
  case False
  then obtain c cs where f: "f = c # cs" using assms(2) by (cases f) auto
  have c: "\<not> csv_special c" and cs: "\<not> list_ex csv_special cs" using False f by auto
  have "foldl tokenize_char (m, [], line, lines) (csv_field f) = (IN_FIELD, f, line, lines)"
    using assms(1) False by (simp add: csv_field_def f tok_first_char [OF _ c] tok_unquoted [OF cs])
  then show ?thesis by simp
qed

lemma tok_field_comma:
  assumes "m = START_FIELD \<or> m = START_RECORD"
  shows "foldl tokenize_char (m, [], line, lines) (csv_field f @ COMMA # rest) =
         foldl tokenize_char (START_FIELD, [], line @ [f], lines) rest"
proof (cases "list_ex csv_special f \<or> f \<noteq> []")
  case True
  from tok_field_body [OF assms True] obtain m' where
    m': "m' = IN_FIELD \<or> m' = QUOTE_IN_QUOTED_FIELD" and
    b: "foldl tokenize_char (m, [], line, lines) (csv_field f) = (m', f, line, lines)" by blast
  have "tokenize_char (m', f, line, lines) COMMA = (START_FIELD, [], line @ [f], lines)"
    using m' by (auto simp: COMMA_def DQUOTE_def LF_def CR_def)
  then show ?thesis by (simp add: b)
next
  case False
  then have "f = []" and "csv_field f = []" by (auto simp: csv_field_def)
  then show ?thesis using assms by (simp add: tok_comma_first)
qed

lemma tok_field_lf:
  "foldl tokenize_char (START_FIELD, [], line, lines) (csv_field f @ [LF]) =
     (START_RECORD, [], [], lines @ [line @ [f]])"
proof (cases "list_ex csv_special f \<or> f \<noteq> []")
  case True
  from tok_field_body [OF _ True, of START_FIELD] obtain m' where
    m': "m' = IN_FIELD \<or> m' = QUOTE_IN_QUOTED_FIELD" and
    b: "foldl tokenize_char (START_FIELD, [], line, lines) (csv_field f) = (m', f, line, lines)"
    by blast
  have "tokenize_char (m', f, line, lines) LF = (START_RECORD, [], [], lines @ [line @ [f]])"
    using m' by (auto simp: COMMA_def DQUOTE_def LF_def CR_def)
  then show ?thesis by (simp add: b)
next
  case False
  then have "f = []" and "csv_field f = []" by (auto simp: csv_field_def)
  then show ?thesis by (simp add: tok_start_field_def)
qed

lemma tok_fields:
  "foldl tokenize_char (START_FIELD, [], line, lines) (join [COMMA] (map csv_field (f # fs)) @ [LF]) =
     (START_RECORD, [], [], lines @ [line @ f # fs])"
proof (induction fs arbitrary: f line)
  case Nil
  show ?case using tok_field_lf [of line lines f] by simp
next
  case (Cons g gs)
  have eq: "join [COMMA] (map csv_field (f # g # gs)) @ [LF] =
            csv_field f @ COMMA # (join [COMMA] (map csv_field (g # gs)) @ [LF])"
    by simp
  have "foldl tokenize_char (START_FIELD, [], line, lines)
          (join [COMMA] (map csv_field (f # g # gs)) @ [LF]) =
        foldl tokenize_char (START_FIELD, [], line @ [f], lines)
          (join [COMMA] (map csv_field (g # gs)) @ [LF])"
    unfolding eq by (rule tok_field_comma) simp
  also have "\<dots> = (START_RECORD, [], [], lines @ [(line @ [f]) @ g # gs])"
    by (rule Cons.IH)
  finally show ?case by simp
qed

lemma tok_line:
  "foldl tokenize_char (START_RECORD, [], [], lines) (csv_line (f # g # gs)) =
     (START_RECORD, [], [], lines @ [f # g # gs])"
proof -
  have eq: "csv_line (f # g # gs) =
            csv_field f @ COMMA # (join [COMMA] (map csv_field (g # gs)) @ [LF])"
    by (simp add: csv_line_def)
  have "foldl tokenize_char (START_RECORD, [], [], lines) (csv_line (f # g # gs)) =
        foldl tokenize_char (START_FIELD, [], [] @ [f], lines)
          (join [COMMA] (map csv_field (g # gs)) @ [LF])"
    unfolding eq by (rule tok_field_comma) simp
  also have "\<dots> = (START_RECORD, [], [], lines @ [([] @ [f]) @ g # gs])"
    by (rule tok_fields)
  finally show ?thesis by simp
qed


lemma tokenize_all_append:
  "tokenize_all (a @ b) = foldl tokenize_char (tokenize_all a) b"
  by (simp add: tokenize_all_def)

lemma save_prediction_new:
  "save_prediction e text lang lab sc al None =
     Some (csv_line [lit ''timestamp'', lit ''text'', lit ''language'', lit ''top_label'',
                     lit ''top_score'', lit ''all_scores''] @
           csv_line [now e, text, lang, lab, csv_float e sc, json_dumps e al])"
  by (simp add: save_prediction_def path_exists_def write_file_def to_csv_def log_row_def
      cell_text_def)

lemma read_csv_lines:
  assumes "tokenize_all c = (START_RECORD, [], [], h # rs)"
    and "list_all (\<lambda>r. length r = 6) (h # rs)"
  shows "read_csv c = Inr rs"
proof (cases rs)
  case Nil
  then show ?thesis using assms by (simp add: read_csv_def)
next
  case (Cons r rs')
  have "\<not> list_ex (\<lambda>x. max (length h) (length r) < length x) rs'"
    using assms(2) Cons by (auto simp: list_ex_iff list_all_iff)
  then show ?thesis using assms(1) Cons by (simp add: read_csv_def)
qed

lemma log_ok_rows:
  assumes "log_ok fs"
  shows "\<exists>rows. log_rows fs = Inr rows \<and>
           log_ok (save_prediction e text lang lab sc al fs) \<and>
           log_rows (save_prediction e text lang lab sc al fs) =
             Inr (rows @ [[now e, text, lang, lab, csv_float e sc, json_dumps e al]])"
proof (cases fs)
  case None
  let ?h = "[lit ''timestamp'', lit ''text'', lit ''language'', lit ''top_label'',
             lit ''top_score'', lit ''all_scores'']"
  let ?r = "[now e, text, lang, lab, csv_float e sc, json_dumps e al]"
  have t: "tokenize_all (csv_line ?h @ csv_line ?r) = (START_RECORD, [], [], [?h, ?r])"
    by (simp only: tokenize_all_append) (simp add: tokenize_all_def tok_line)
  have "read_csv (csv_line ?h @ csv_line ?r) = Inr [?r]"
    by (rule read_csv_lines [OF t]) simp
  then show ?thesis using None t
    by (simp add: log_rows_def save_prediction_new log_ok_def)
next
  case (Some c)
  let ?r = "[now e, text, lang, lab, csv_float e sc, json_dumps e al]"
  from assms Some obtain lines where
    c: "tokenize_all c = (START_RECORD, [], [], lines)" and ne: "lines \<noteq> []"
    and six: "list_all (\<lambda>r. length r = 6) lines"
    by (auto simp: log_ok_def split: prod.splits)
  obtain h rs where l: "lines = h # rs" using ne by (cases lines) auto
  have r1: "read_csv c = Inr rs" using c six l by (simp add: read_csv_lines)
  have t: "tokenize_all (c @ csv_line ?r) = (START_RECORD, [], [], h # (rs @ [?r]))"
    by (simp add: tokenize_all_append c l tok_line)
  have r2: "read_csv (c @ csv_line ?r) = Inr (rs @ [?r])"
    by (rule read_csv_lines [OF t]) (use six l in simp)
  show ?thesis using Some r1 r2 t six l
    by (simp add: log_rows_def save_prediction_Some log_ok_def)
qed

lemma predict_button_log:
  "log_csv (snd (predict_button e lang text w)) = log_csv w \<or>
   (\<exists>lab sc al. log_csv (snd (predict_button e lang text w)) =
      save_prediction e text lang lab sc al (log_csv w))"
  by (auto simp: predict_button_def Let_def st_progress_def split: sum.splits)

lemma clear_button_log:
  "log_csv (snd (clear_button w)) = None"
  by (cases "log_csv w") (simp_all add: clear_button_def path_exists_def os_remove_def)

lemma run_log:
  "log_csv (snd (run e lang text predict clear w)) = None \<or>
   log_csv (snd (run e lang text predict clear w)) = log_csv w \<or>
   (\<exists>lab sc al. log_csv (snd (run e lang text predict clear w)) =
      save_prediction e text lang lab sc al (log_csv w))"
proof (cases predict)
  case False
  then show ?thesis by (simp add: run_def Let_def clear_button_log)
next
  case True
  obtain out w1 where p: "predict_button e lang text w = (out, w1)"
    by (cases "predict_button e lang text w")
  have w1: "log_csv w1 = log_csv w \<or>
      (\<exists>lab sc al. log_csv w1 = save_prediction e text lang lab sc al (log_csv w))"
    using predict_button_log [of e lang "text" w] p by simp
  show ?thesis
  proof (cases out)
    case Done
    then show ?thesis using True p w1 by (auto simp: run_def Let_def clear_button_log)
  next
    case (Raised err)
    then show ?thesis using True p w1 by (auto simp: run_def)
  qed
qed

lemma reachable_log_ok: "reachable fs \<Longrightarrow> log_ok fs"
proof (induction rule: reachable.induct)
  case start
  show ?case by (simp add: log_ok_def)
next
  case (step w e lang inp predict clear)
  from run_log [of e lang inp predict clear w] show ?case
  proof (elim disjE exE)
    assume "log_csv (snd (run e lang inp predict clear w)) = None"
    then show ?thesis by (simp add: log_ok_def)
  next
    assume "log_csv (snd (run e lang inp predict clear w)) = log_csv w"
    then show ?thesis using step.IH by simp
  next
    fix lab sc al
    assume "log_csv (snd (run e lang inp predict clear w)) =
      save_prediction e inp lang lab sc al (log_csv w)"
    then show ?thesis using log_ok_rows [OF step.IH, of e inp lang lab sc al] by auto
  qed
qed

subsection \<open>One row for each prediction\<close>

lemma predict_button_saved:
  assumes "py_strip text \<noteq> []" and "pipe e (model_name lang) text = preds # rest"
    and "top preds = Inr t" and "fst (predict_button e lang text w) = Done"
  shows "log_csv (snd (predict_button e lang text w)) =
           save_prediction e text lang (label t) (score t) (preds_sorted preds) (log_csv w)"
  using assms
  by (simp add: predict_button_def Let_def index0_def st_progress_def split: if_splits)

lemma predict_button_Done:
  assumes "py_strip text \<noteq> []" and "pipe e (model_name lang) text = preds # rest"
    and "top preds = Inr t" and "0 \<le> py_int (score t * 100)" and "py_int (score t * 100) \<le> 100"
  shows "fst (predict_button e lang text w) = Done"
    and "shown (snd (predict_button e lang text w)) =
           shown w @ Predicted (label_to_emoji (label t)) (label t) (score t) #
             Progress (py_int (score t * 100)) # top_entries (top3 preds) @
             [Table (preds_sorted preds), BarChart (preds_sorted preds),
              Success (lit ''Saved to log '' @ [0x2705])]"
  using assms
  by (simp_all add: predict_button_def Let_def index0_def st_progress_def)

lemma run_predict:
  "fst (predict_button e lang text w) = Done \<Longrightarrow>
   run e lang text True False w = (Done, log_actions (snd (predict_button e lang text w)))"
  by (cases "predict_button e lang text w") (simp add: run_def)

lemma log_actions_rows:
  "log_csv w = Some content \<Longrightarrow> log_rows (log_csv w) = Inr rows \<Longrightarrow>
   shown (log_actions w) = shown w @ [TotalSaved (length rows), Download content]"
  by (simp add: log_actions_def log_rows_def)

lemma save_prediction_content:
  "save_prediction e text lang lab sc al fs =
     Some (case fs of None \<Rightarrow> to_csv e True (log_row e text lang lab sc al)
           | Some c \<Rightarrow> c @ to_csv e False (log_row e text lang lab sc al))"
  by (cases fs) (simp_all add: save_prediction_def path_exists_def write_file_def append_file_def)

lemma promotion_sorted: "preds_sorted promotion_scores = promotion_scores"
  by (simp add: preds_sorted_def promotion_scores_def)

lemma promotion_top:
  "top promotion_scores = Inr \<lparr>label = lit ''joy'', score = 0.91\<rparr>"
  by (simp add: top_def top3_def promotion_sorted index0_def) (simp add: promotion_scores_def)

lemma promotion_top3:
  "top3 promotion_scores =
     [\<lparr>label = lit ''joy'', score = 0.91\<rparr>, \<lparr>label = lit ''surprise'', score = 0.05\<rparr>,
      \<lparr>label = lit ''neutral'', score = 0.02\<rparr>]"
  by (simp add: top3_def promotion_sorted) (simp add: promotion_scores_def)

lemma joy_emoji: "label_to_emoji (lit ''joy'') = [0x1F604]"
  by (simp add: label_to_emoji_def py_lower_def lower_cp_def dict_get_def EMOJI_MAP_def lit_def)

lemma promotion_progress: "py_int (0.91 * 100) = 91"
  by (simp add: py_int_def)

lemma fresh_reachable: "reachable (log_csv fresh)"
  by (simp add: fresh_def reachable.start)

lemma quoted_text_strip: "py_strip quoted_text \<noteq> []"
  by (simp add: py_strip_def quoted_text_def lit_def py_isspace_def DQUOTE_def LF_def)

lemma promotion_pipe: "pipe promotion_env m s = [promotion_scores]"
  by (simp add: promotion_env_def)

lemma promotion_range:
  "0 \<le> py_int (score \<lparr>label = lit ''joy'', score = 0.91\<rparr> * 100)"
  "py_int (score \<lparr>label = lit ''joy'', score = 0.91\<rparr> * 100) \<le> 100"
  by (simp_all add: py_int_def)

lemma promotion_row:
  "[now promotion_env, s, l, label \<lparr>label = lit ''joy'', score = 0.91\<rparr>,
    csv_float promotion_env (score \<lparr>label = lit ''joy'', score = 0.91\<rparr>),
    json_dumps promotion_env (preds_sorted promotion_scores)] =
   [lit ''2024-05-01T10:00:00.000000'', s, l, lit ''joy'', lit ''0.91'',
    json_dumps promotion_env promotion_scores]"
  by (simp add: promotion_env_def float_text_def promotion_sorted)

text \<open>
  Claim C10. Take a log that the script has written (none, or what runs of the script
  have left) and a prediction that ends normally. The log read before has some rows;
  read after, it has the same rows and one more, whose fields are the time stamp, the
  text as entered (whatever commas, quotes or line breaks it holds), the language, the
  top label, the top score and the JSON text of the ranked list. The new file is the old
  file, unchanged, followed by the new line (a new file starts with the header). The
  number of saved predictions shown goes from the number of rows to that number plus one.
\<close>

theorem prediction_adds_one_row:
  assumes "reachable (log_csv w)"
    and "py_strip text \<noteq> []"
    and "pipe e (model_name lang) text = preds # rest"
    and "top preds = Inr t"
    and "fst (predict_button e lang text w) = Done"
  shows "\<exists>rows.
           log_rows (log_csv w) = Inr rows \<and>
           log_rows (log_csv (snd (predict_button e lang text w))) =
             Inr (rows @ [[now e, text, lang, label t, csv_float e (score t),
                           json_dumps e (preds_sorted preds)]]) \<and>
           log_csv (snd (predict_button e lang text w)) =
             Some (case log_csv w of
                     None \<Rightarrow> to_csv e True (log_row e text lang (label t) (score t) (preds_sorted preds))
                   | Some c \<Rightarrow> c @ to_csv e False (log_row e text lang (label t) (score t) (preds_sorted preds))) \<and>
           (\<forall>c. log_csv w = Some c \<longrightarrow>
                shown (log_actions w) = shown w @ [TotalSaved (length rows), Download c]) \<and>
           (\<exists>content.
              shown (snd (run e lang text True False w)) =
                shown (snd (predict_button e lang text w)) @
                [TotalSaved (Suc (length rows)), Download content])"
proof -
  let ?w = "snd (predict_button e lang text w)"
  let ?row = "[now e, text, lang, label t, csv_float e (score t), json_dumps e (preds_sorted preds)]"
  have saved: "log_csv ?w =
      save_prediction e text lang (label t) (score t) (preds_sorted preds) (log_csv w)"
    using assms(2-5) by (rule predict_button_saved)
  have ok: "log_ok (log_csv w)" using assms(1) by (rule reachable_log_ok)
  from log_ok_rows [OF ok, of e "text" lang "label t" "score t" "preds_sorted preds"]
  obtain rows where before: "log_rows (log_csv w) = Inr rows"
    and after: "log_rows (log_csv ?w) = Inr (rows @ [?row])"
    using saved by auto
  obtain content where content: "log_csv ?w = Some content"
    using saved by (simp add: save_prediction_content)
  have "shown (log_actions ?w) = shown ?w @ [TotalSaved (length (rows @ [?row])), Download content]"
    using content after by (rule log_actions_rows)
  then have shown_after: "shown (snd (run e lang text True False w)) =
      shown ?w @ [TotalSaved (Suc (length rows)), Download content]"
    using assms(5) by (simp add: run_predict)
  have shown_before: "\<forall>c. log_csv w = Some c \<longrightarrow>
      shown (log_actions w) = shown w @ [TotalSaved (length rows), Download c]"
    using before by (auto intro: log_actions_rows)
  have bytes: "log_csv ?w =
      Some (case log_csv w of
              None \<Rightarrow> to_csv e True (log_row e text lang (label t) (score t) (preds_sorted preds))
            | Some c \<Rightarrow> c @ to_csv e False (log_row e text lang (label t) (score t) (preds_sorted preds)))"
    using saved by (simp add: save_prediction_content)
  show ?thesis using before after bytes shown_before shown_after by blast
qed

theorem prediction_adds_one_row_witness:
  "reachable (log_csv fresh) \<and>
   py_strip quoted_text \<noteq> [] \<and>
   pipe promotion_env (model_name (lit ''English (fast)'')) quoted_text = [promotion_scores] \<and>
   top promotion_scores = Inr \<lparr>label = lit ''joy'', score = 0.91\<rparr> \<and>
   fst (predict_button promotion_env (lit ''English (fast)'') quoted_text fresh) = Done \<and>
   log_rows (log_csv fresh) = Inr [] \<and>
   log_rows (log_csv (snd (predict_button promotion_env (lit ''English (fast)'') quoted_text fresh))) =
     Inr [[lit ''2024-05-01T10:00:00.000000'', quoted_text, lit ''English (fast)'', lit ''joy'',
           lit ''0.91'', json_dumps promotion_env promotion_scores]] \<and>
   reachable (log_csv (snd (run promotion_env (lit ''English (fast)'') quoted_text True False fresh))) \<and>
   fst (predict_button promotion_env (lit ''English (fast)'') promotion_text
          (snd (run promotion_env (lit ''English (fast)'') quoted_text True False fresh))) = Done \<and>
   log_rows (log_csv (snd (predict_button promotion_env (lit ''English (fast)'') promotion_text
          (snd (run promotion_env (lit ''English (fast)'') quoted_text True False fresh))))) =
     Inr [[lit ''2024-05-01T10:00:00.000000'', quoted_text, lit ''English (fast)'', lit ''joy'',
           lit ''0.91'', json_dumps promotion_env promotion_scores],
          [lit ''2024-05-01T10:00:00.000000'', promotion_text, lit ''English (fast)'', lit ''joy'',
           lit ''0.91'', json_dumps promotion_env promotion_scores]]"
proof -
  let ?L = "lit ''English (fast)''"
  let ?w1 = "snd (run promotion_env ?L quoted_text True False fresh)"
  have none: "log_rows (log_csv fresh) = Inr []" by (simp add: fresh_def log_rows_def)
  have d0: "fst (predict_button promotion_env ?L quoted_text fresh) = Done"
    by (rule predict_button_Done(1) [OF quoted_text_strip promotion_pipe promotion_top promotion_range])
  note t0 = prediction_adds_one_row [OF fresh_reachable quoted_text_strip promotion_pipe promotion_top d0]
  from t0 obtain rows0 where
    a0: "log_rows (log_csv fresh) = Inr rows0" and
    b0: "log_rows (log_csv (snd (predict_button promotion_env ?L quoted_text fresh))) =
          Inr (rows0 @ [[lit ''2024-05-01T10:00:00.000000'', quoted_text, ?L, lit ''joy'',
                         lit ''0.91'', json_dumps promotion_env promotion_scores]])"
    unfolding promotion_row by blast
  have first: "log_rows (log_csv (snd (predict_button promotion_env ?L quoted_text fresh))) =
          Inr [[lit ''2024-05-01T10:00:00.000000'', quoted_text, ?L, lit ''joy'',
                lit ''0.91'', json_dumps promotion_env promotion_scores]]"
    using a0 b0 none by simp
  have w1: "log_csv ?w1 = log_csv (snd (predict_button promotion_env ?L quoted_text fresh))"
    by (simp add: run_predict [OF d0])
  have reach1: "reachable (log_csv ?w1)"
    by (rule reachable.step [OF fresh_reachable])
  have d1: "fst (predict_button promotion_env ?L promotion_text ?w1) = Done"
    by (rule predict_button_Done(1) [OF promotion_text_strip promotion_pipe promotion_top promotion_range])
  note t1 = prediction_adds_one_row [OF reach1 promotion_text_strip promotion_pipe promotion_top d1]
  from t1 obtain rows1 where
    a1: "log_rows (log_csv ?w1) = Inr rows1" and
    b1: "log_rows (log_csv (snd (predict_button promotion_env ?L promotion_text ?w1))) =
          Inr (rows1 @ [[lit ''2024-05-01T10:00:00.000000'', promotion_text, ?L, lit ''joy'',
                         lit ''0.91'', json_dumps promotion_env promotion_scores]])"
    unfolding promotion_row by blast
  have second: "log_rows (log_csv (snd (predict_button promotion_env ?L promotion_text ?w1))) =
          Inr [[lit ''2024-05-01T10:00:00.000000'', quoted_text, ?L, lit ''joy'',
                lit ''0.91'', json_dumps promotion_env promotion_scores],
               [lit ''2024-05-01T10:00:00.000000'', promotion_text, ?L, lit ''joy'',
                lit ''0.91'', json_dumps promotion_env promotion_scores]]"
    using a1 b1 first w1 by simp
  show ?thesis
    by (intro conjI fresh_reachable quoted_text_strip promotion_pipe promotion_top d0 none first
        reach1 d1 second)
qed

subsection \<open>The scenario of the specification\<close>

text \<open>
  Claim C8. When the pipeline returns joy 0.91, surprise 0.05, neutral 0.02, sadness 0.01
  and anger 0.01 for a text that is not blank, the top prediction is joy with 0.91, its
  emoji is U+1F604, the top three are joy, surprise and neutral, the run ends normally
  and shows them, and the log (one the script has written) gets one more row, with the
  top label \<open>joy\<close> and the top score 0.91.
\<close>

theorem promotion_scenario:
  assumes "reachable (log_csv w)"
    and "py_strip text \<noteq> []"
    and "pipe e (model_name lang) text = [promotion_scores]"
  shows "top promotion_scores = Inr \<lparr>label = lit ''joy'', score = 0.91\<rparr> \<and>
         label_to_emoji (lit ''joy'') = [0x1F604] \<and>
         top3 promotion_scores =
           [\<lparr>label = lit ''joy'', score = 0.91\<rparr>, \<lparr>label = lit ''surprise'', score = 0.05\<rparr>,
            \<lparr>label = lit ''neutral'', score = 0.02\<rparr>] \<and>
         fst (predict_button e lang text w) = Done \<and>
         shown (snd (predict_button e lang text w)) =
           shown w @ Predicted [0x1F604] (lit ''joy'') 0.91 # Progress 91 #
             top_entries (top3 promotion_scores) @
             [Table promotion_scores, BarChart promotion_scores,
              Success (lit ''Saved to log '' @ [0x2705])] \<and>
         (\<exists>rows.
            log_rows (log_csv w) = Inr rows \<and>
            log_rows (log_csv (snd (predict_button e lang text w))) =
              Inr (rows @ [[now e, text, lang, lit ''joy'', csv_float e 0.91,
                            json_dumps e promotion_scores]]))"
proof -
  let ?t = "\<lparr>label = lit ''joy'', score = 0.91\<rparr>"
  have r: "0 \<le> py_int (score ?t * 100)" "py_int (score ?t * 100) \<le> 100"
    by (simp_all add: py_int_def)
  note d = predict_button_Done [OF assms(2) assms(3) promotion_top r, of w]
  have saved: "log_csv (snd (predict_button e lang text w)) =
      save_prediction e text lang (lit ''joy'') 0.91 promotion_scores (log_csv w)"
    using predict_button_saved [OF assms(2) assms(3) promotion_top d(1)]
    by (simp add: promotion_sorted)
  have ok: "log_ok (log_csv w)" using assms(1) by (rule reachable_log_ok)
  have rows: "\<exists>rows.
      log_rows (log_csv w) = Inr rows \<and>
      log_rows (log_csv (snd (predict_button e lang text w))) =
        Inr (rows @ [[now e, text, lang, lit ''joy'', csv_float e 0.91,
                      json_dumps e promotion_scores]])"
    using log_ok_rows [OF ok, of e "text" lang "lit ''joy''" "0.91" promotion_scores] saved
    by auto
  have sh: "shown (snd (predict_button e lang text w)) =
           shown w @ Predicted [0x1F604] (lit ''joy'') 0.91 # Progress 91 #
             top_entries (top3 promotion_scores) @
             [Table promotion_scores, BarChart promotion_scores,
              Success (lit ''Saved to log '' @ [0x2705])]"
    using d(2) by (simp add: joy_emoji promotion_sorted py_int_def)
  show ?thesis using promotion_top joy_emoji promotion_top3 d(1) sh rows by blast
qed

theorem promotion_scenario_witness:
  "reachable (log_csv fresh) \<and>
   py_strip promotion_text \<noteq> [] \<and>
   pipe promotion_env (model_name (lit ''English (fast)'')) promotion_text = [promotion_scores] \<and>
   top promotion_scores = Inr \<lparr>label = lit ''joy'', score = 0.91\<rparr> \<and>
   label_to_emoji (lit ''joy'') = [0x1F604] \<and>
   fst (predict_button promotion_env (lit ''English (fast)'') promotion_text fresh) = Done \<and>
   log_rows (log_csv fresh) = Inr [] \<and>
   log_rows (log_csv (snd (predict_button promotion_env (lit ''English (fast)'') promotion_text fresh))) =
     Inr [[lit ''2024-05-01T10:00:00.000000'', promotion_text, lit ''English (fast)'', lit ''joy'',
           lit ''0.91'', json_dumps promotion_env promotion_scores]]"
proof -
  let ?L = "lit ''English (fast)''"
  have none: "log_rows (log_csv fresh) = Inr []" by (simp add: fresh_def log_rows_def)
  have f: "csv_float promotion_env 0.91 = lit ''0.91''"
    "now promotion_env = lit ''2024-05-01T10:00:00.000000''"
    by (simp_all add: promotion_env_def float_text_def)
  have p: "pipe promotion_env (model_name ?L) promotion_text = [promotion_scores]"
    by (rule promotion_pipe)
  note t = promotion_scenario [OF fresh_reachable promotion_text_strip p]
  from t have tp: "top promotion_scores = Inr \<lparr>label = lit ''joy'', score = 0.91\<rparr>" by blast
  from t have em: "label_to_emoji (lit ''joy'') = [0x1F604]" by blast
  from t have d: "fst (predict_button promotion_env ?L promotion_text fresh) = Done" by blast
  from t obtain rows where
    a: "log_rows (log_csv fresh) = Inr rows" and
    b: "log_rows (log_csv (snd (predict_button promotion_env ?L promotion_text fresh))) =
          Inr (rows @ [[now promotion_env, promotion_text, ?L, lit ''joy'',
                        csv_float promotion_env 0.91, json_dumps promotion_env promotion_scores]])"
    by blast
  have rows: "rows = []" using a none by simp
  have r: "log_rows (log_csv (snd (predict_button promotion_env ?L promotion_text fresh))) =
     Inr [[lit ''2024-05-01T10:00:00.000000'', promotion_text, ?L, lit ''joy'',
           lit ''0.91'', json_dumps promotion_env promotion_scores]]"
    using b unfolding rows f by simp
  show ?thesis
    by (intro conjI fresh_reachable promotion_text_strip p tp em d none r)
qed

end
